theory Spec2Isabelle
  imports Complex_Main
begin

section \<open>Numbers\<close>

text \<open>
  The layout code computes with Python floats. They are modelled by exact rationals:
  \<open>12.33\<close> is \<open>1233 / 100\<close>, and no rounding error is represented. Python's
  \<open>int(x)\<close> on a float truncates toward zero.

  The validators add the sizes of a slide with \<open>sum\<close>, in floating point when the
  sizes are floats; the model adds them exactly. On sizes that are non-negative whole
  numbers the two sums agree on every comparison with 98 and 102: the floating-point
  sum of such numbers is exact up to \<open>2 ^ 53\<close> and never decreases along the list.
  On other sizes they can differ by a rounding error (ten sizes of 9.8), and a size
  that is not a number (NaN) has no counterpart in the model. Statements about the
  band of the sum are therefore made for whole-number sizes.
\<close>

definition py_int :: "rat \<Rightarrow> int" where
  "py_int x = (if 0 \<le> x then \<lfloor>x\<rfloor> else \<lceil>x\<rceil>)"

text \<open>Truthiness of an optional integer argument (\<open>if columns\<close>): neither None nor 0.\<close>

definition truthy :: "int option \<Rightarrow> bool" where
  "truthy c = (case c of None \<Rightarrow> False | Some k \<Rightarrow> k \<noteq> 0)"

section \<open>models.py\<close>

datatype LayoutType = COLUMN | ROW

fun LayoutType_value :: "LayoutType \<Rightarrow> string" where
  "LayoutType_value COLUMN = ''columns''"
| "LayoutType_value ROW = ''rows''"

text \<open>
  Every \<open>raise\<close> of the two modules is one constructor:
  \<^item> \<open>SizeOutOfRange\<close>: ValueError("Size must be between 0 and 100")
  \<^item> \<open>DimensionNotPositive\<close>: ValueError("Dimension must be greater than 0")
  \<^item> \<open>BothRowsAndColumns\<close>: ValueError("Cannot specify both rows and columns")
  \<^item> \<open>ColumnsMismatch c\<close>: ValueError("Number of sections must match number of columns (c)")
  \<^item> \<open>RowsMismatch r\<close>: ValueError("Number of sections must match number of rows (r)")
  \<^item> \<open>MixedSizes\<close>: ValueError("Cannot mix sized and unsized sections")
  \<^item> \<open>BadTotalSize\<close>: ValueError("Section sizes must sum to approximately 100%")
  \<^item> \<open>NameRequired\<close>: ValueError("Name is required")
  \<^item> \<open>PptNameRequired\<close>: ValueError("ppt_name is required")
  \<^item> \<open>SlideTitleRequired\<close>: ValueError("slide_title is required")
  \<^item> \<open>FileNotFound f\<close>: FileNotFoundError("File 'f' not found")
\<close>

datatype error =
    SizeOutOfRange
  | DimensionNotPositive
  | BothRowsAndColumns
  | ColumnsMismatch int
  | RowsMismatch int
  | MixedSizes
  | BadTotalSize
  | NameRequired
  | PptNameRequired
  | SlideTitleRequired
  | FileNotFound string

record Section =
  header :: string
  content :: "string list"
  size_val :: "rat option"

definition validate_size :: "rat option \<Rightarrow> error + rat option" where
  "validate_size v =
     (case v of
        None \<Rightarrow> Inr v
      | Some x \<Rightarrow> if x \<le> 0 \<or> x > 100 then Inl SizeOutOfRange else Inr v)"

definition Section_init :: "string \<Rightarrow> string list \<Rightarrow> rat option \<Rightarrow> error + Section" where
  "Section_init h c s =
     (case validate_size s of
        Inl e \<Rightarrow> Inl e
      | Inr v \<Rightarrow> Inr \<lparr>header = h, content = c, size_val = v\<rparr>)"

text \<open>
  The fields of SlideModel carry the prefix \<open>sm_\<close>: the plain names are the
  parameter names of the functions of \<open>ppt_helpers.py\<close> below.
\<close>

record SlideModel =
  sm_slide_title :: string
  sm_layout :: "LayoutType option"
  sm_columns :: "int option"
  sm_rows :: "int option"
  sm_sections :: "Section list option"
  sm_ppt_name :: "string option"

definition validate_dimension :: "int option \<Rightarrow> error + int option" where
  "validate_dimension v =
     (case v of
        None \<Rightarrow> Inr v
      | Some k \<Rightarrow> if k \<le> 0 then Inl DimensionNotPositive else Inr v)"

text \<open>
  \<open>SlideModel.validate_sections(v, info)\<close>; the two entries of \<open>info.data\<close> it
  reads are passed as \<open>cols\<close> and \<open>rws\<close>. \<open>if not v: return v\<close> covers None
  and the empty list.
\<close>

definition validate_sections ::
  "Section list option \<Rightarrow> int option \<Rightarrow> int option \<Rightarrow> error + Section list option" where
  "validate_sections v cols rws =
     (case v of
        None \<Rightarrow> Inr v
      | Some [] \<Rightarrow> Inr v
      | Some secs \<Rightarrow>
          if truthy rws \<and> truthy cols then Inl BothRowsAndColumns
          else if truthy cols \<and> Some (int (length secs)) \<noteq> cols
            then Inl (ColumnsMismatch (the cols))
          else if truthy rws \<and> Some (int (length secs)) \<noteq> rws
            then Inl (RowsMismatch (the rws))
          else
            let sizes = List.map_filter size_val secs in
            if sizes \<noteq> [] then
              if length sizes \<noteq> length secs then Inl MixedSizes
              else
                let total_size = sum_list sizes in
                if total_size < 98 \<or> total_size > 102 then Inl BadTotalSize
                else Inr v
            else Inr v)"

text \<open>
  Construction of a SlideModel: the field validators run in field order
  (columns, rows, sections); the model exists only if all of them pass.
\<close>

definition SlideModel_init ::
  "string \<Rightarrow> LayoutType option \<Rightarrow> int option \<Rightarrow> int option \<Rightarrow> Section list option
     \<Rightarrow> string option \<Rightarrow> error + SlideModel" where
  "SlideModel_init t l cols rws secs p =
     (case validate_dimension cols of
        Inl e \<Rightarrow> Inl e
      | Inr c \<Rightarrow>
          (case validate_dimension rws of
             Inl e \<Rightarrow> Inl e
           | Inr r \<Rightarrow>
               (case validate_sections secs c r of
                  Inl e \<Rightarrow> Inl e
                | Inr s \<Rightarrow>
                    Inr \<lparr>sm_slide_title = t, sm_layout = l, sm_columns = c, sm_rows = r,
                         sm_sections = s, sm_ppt_name = p\<rparr>)))"

section \<open>Sections as dictionaries\<close>

text \<open>
  \<open>ppt_helpers.py\<close> receives each section as a dict. The keys \<open>header\<close> and
  \<open>content\<close> are taken to be present (\<open>add_section_content\<close> reads them by
  subscript); the key \<open>size\<close> may be absent (\<open>dict_size = None\<close>), present with
  the value None (\<open>Some None\<close>) or present with a number (\<open>Some (Some v)\<close>).
\<close>

record section_dict =
  dict_header :: string
  dict_content :: "string list"
  dict_size :: "rat option option"

text \<open>\<open>Section.model_dump()\<close>: every field becomes a key, \<open>size\<close> included.\<close>

definition model_dump :: "Section \<Rightarrow> section_dict" where
  "model_dump s =
     \<lparr>dict_header = header s, dict_content = content s, dict_size = Some (size_val s)\<rparr>"

text \<open>\<open>'size' in section\<close> and \<open>section.get('size')\<close>.\<close>

definition has_size_key :: "section_dict \<Rightarrow> bool" where
  "has_size_key section = (dict_size section \<noteq> None)"

definition get_size :: "section_dict \<Rightarrow> rat option" where
  "get_size section = (case dict_size section of None \<Rightarrow> None | Some v \<Rightarrow> v)"

section \<open>ppt_helpers.py: layout\<close>

text \<open>The four arguments of one \<open>create_section_box\<close> call, in inches.\<close>

record region =
  start_x :: rat
  start_y :: rat
  box_width :: rat
  box_height :: rat

text \<open>
  \<open>section.get('size', 100) / 100 if section.get('size') else 1.0 / len(sections)\<close>:
  a size of None or 0 is falsy.
\<close>

definition size_factor :: "nat \<Rightarrow> section_dict \<Rightarrow> rat" where
  "size_factor n section =
     (case get_size section of
        None \<Rightarrow> 1 / of_nat n
      | Some v \<Rightarrow> if v \<noteq> 0 then v / 100 else 1 / of_nat n)"

text \<open>\<open>previous_sections_size\<close> for index \<open>i\<close>: the factors of \<open>sections[:i]\<close>.\<close>

definition previous_sections_size :: "section_dict list \<Rightarrow> nat \<Rightarrow> rat" where
  "previous_sections_size sections i =
     sum_list (map (size_factor (length sections)) (take i sections))"

text \<open>The local \<open>width\<close> of \<open>create_column_layout\<close>, before it is passed on.\<close>

definition column_width :: "section_dict list \<Rightarrow> section_dict \<Rightarrow> rat" where
  "column_width sections section =
     (let section_margin = 0.2;
          total_margin_space = section_margin * (of_nat (length sections) - 1);
          total_width = 12.33 - total_margin_space
      in total_width * size_factor (length sections) section)"

definition create_column_layout :: "section_dict list \<Rightarrow> region list" where
  "create_column_layout sections =
     (let margin_x = 0.5;
          margin_y = 1.5;
          section_margin = 0.2;
          total_margin_space = section_margin * (of_nat (length sections) - 1);
          total_width = 12.33 - total_margin_space;
          section_height = 5.0
      in map (\<lambda>(i, section).
               let width = column_width sections section;
                   x = margin_x + total_width * previous_sections_size sections i
                         + section_margin * of_nat i
               in \<lparr>start_x = x, start_y = margin_y,
                   box_width = of_int (py_int width),
                   box_height = of_int (py_int section_height)\<rparr>)
             (enumerate 0 sections))"

definition create_row_layout :: "section_dict list \<Rightarrow> region list" where
  "create_row_layout sections =
     (let margin_x = 0.5;
          margin_y = 1.5;
          section_margin = 0.2;
          total_margin_space = section_margin * (of_nat (length sections) - 1);
          total_width = 12.33;
          total_height = 5.0 - total_margin_space
      in map (\<lambda>(i, section).
               let height = total_height * size_factor (length sections) section;
                   current_y = margin_y + total_height * previous_sections_size sections i
                         + section_margin * of_nat i
               in \<lparr>start_x = margin_x, start_y = current_y,
                   box_width = total_width, box_height = height\<rparr>)
             (enumerate 0 sections))"

text \<open>
  The same two algorithms over an arbitrary canvas: the literals of the two functions
  above become the fields of a record. \<open>template_canvas\<close> holds the literals of the
  source.
\<close>

record canvas =
  cv_margin_x :: rat
  cv_margin_y :: rat
  cv_section_margin :: rat
  cv_width :: rat
  cv_height :: rat

definition template_canvas :: canvas where
  "template_canvas =
     \<lparr>cv_margin_x = 0.5, cv_margin_y = 1.5, cv_section_margin = 0.2,
      cv_width = 12.33, cv_height = 5.0\<rparr>"

definition column_layout_on :: "canvas \<Rightarrow> section_dict list \<Rightarrow> region list" where
  "column_layout_on cv sections =
     (let total_margin_space = cv_section_margin cv * (of_nat (length sections) - 1);
          total_width = cv_width cv - total_margin_space;
          section_height = cv_height cv
      in map (\<lambda>(i, section).
               let width = total_width * size_factor (length sections) section;
                   x = cv_margin_x cv + total_width * previous_sections_size sections i
                         + cv_section_margin cv * of_nat i
               in \<lparr>start_x = x, start_y = cv_margin_y cv,
                   box_width = of_int (py_int width),
                   box_height = of_int (py_int section_height)\<rparr>)
             (enumerate 0 sections))"

definition row_layout_on :: "canvas \<Rightarrow> section_dict list \<Rightarrow> region list" where
  "row_layout_on cv sections =
     (let total_margin_space = cv_section_margin cv * (of_nat (length sections) - 1);
          total_width = cv_width cv;
          total_height = cv_height cv - total_margin_space
      in map (\<lambda>(i, section).
               let height = total_height * size_factor (length sections) section;
                   current_y = cv_margin_y cv
                         + total_height * previous_sections_size sections i
                         + cv_section_margin cv * of_nat i
               in \<lparr>start_x = cv_margin_x cv, start_y = current_y,
                   box_width = total_width, box_height = height\<rparr>)
             (enumerate 0 sections))"

text \<open>Swapping the roles of width and height, and of x and y.\<close>

definition transpose_canvas :: "canvas \<Rightarrow> canvas" where
  "transpose_canvas cv =
     \<lparr>cv_margin_x = cv_margin_y cv, cv_margin_y = cv_margin_x cv,
      cv_section_margin = cv_section_margin cv,
      cv_width = cv_height cv, cv_height = cv_width cv\<rparr>"

definition transpose_region :: "region \<Rightarrow> region" where
  "transpose_region r =
     \<lparr>start_x = start_y r, start_y = start_x r,
      box_width = box_height r, box_height = box_width r\<rparr>"

definition area :: "region \<Rightarrow> rat" where
  "area r = box_width r * box_height r"

section \<open>ppt_helpers.py: documents on disk\<close>

text \<open>
  A document is the list of its slides. A content slide holds its title and, for each
  section, the region drawn by \<open>create_section_box\<close> together with the section
  written into it by \<open>add_section_content\<close>. The output directory is a map from
  file paths to documents; \<open>events\<close> records every \<open>Presentation(file_path)\<close>
  and every \<open>prs.save(file_path)\<close> on a document, in order. Loading the template
  and the calls into the presentation library are taken to succeed.
\<close>

datatype slide =
    TitleSlide string string
  | ContentSlide string "(region \<times> section_dict) list"

datatype event = Opened string | Saved string

record world =
  files :: "string \<rightharpoonup> slide list"
  events :: "event list"

definition output_path :: "string \<Rightarrow> string" where
  "output_path file_name = ''output/'' @ file_name"

text \<open>
  The size checks of \<open>add_slide\<close> (lines 155 to 168), on \<open>processed_sections\<close>.
  \<open>has_sizes\<close> and the mixing test look at the presence of the key; the sum runs over
  the values that are not None.
\<close>

definition check_sizes :: "section_dict list \<Rightarrow> error + unit" where
  "check_sizes processed_sections =
     (let has_sizes = list_ex has_size_key processed_sections in
      if has_sizes then
        if \<not> list_all has_size_key processed_sections then Inl MixedSizes
        else
          let sizes = List.map_filter get_size processed_sections in
          if sizes \<noteq> [] then
            let total_size = sum_list sizes in
            if total_size < 98 \<or> total_size > 102 then Inl BadTotalSize
            else Inr ()
          else Inr ()
      else Inr ())"

text \<open>\<open>not slide_title\<close>: None or the empty string.\<close>

definition falsy_str :: "string option \<Rightarrow> bool" where
  "falsy_str s = (case s of None \<Rightarrow> True | Some t \<Rightarrow> t = [])"

text \<open>
  Everything \<open>add_slide\<close> does before \<open>Presentation(file_path)\<close>: the checks of
  lines 116 to 168, in the order of the source.
\<close>

definition add_slide_checks ::
  "world \<Rightarrow> string \<Rightarrow> string option \<Rightarrow> int option \<Rightarrow> int option
     \<Rightarrow> section_dict list \<Rightarrow> error + unit" where
  "add_slide_checks w name slide_title columns rows sections =
     (if name = [] then Inl PptNameRequired
      else if falsy_str slide_title then Inl SlideTitleRequired
      else
        let file_name = name @ ''.pptx'';
            file_path = output_path file_name
        in
        if files w file_path = None then Inl (FileNotFound file_name)
        else if truthy columns \<and> truthy rows then Inl BothRowsAndColumns
        else if truthy columns \<and> Some (int (length sections)) \<noteq> columns
          then Inl (ColumnsMismatch (the columns))
        else if truthy rows \<and> Some (int (length sections)) \<noteq> rows
          then Inl (RowsMismatch (the rows))
        else check_sizes sections)"

text \<open>The slide built by lines 171 to 196 and appended to the document.\<close>

definition build_slide ::
  "string option \<Rightarrow> int option \<Rightarrow> int option \<Rightarrow> section_dict list \<Rightarrow> slide" where
  "build_slide slide_title columns rows sections =
     ContentSlide (case slide_title of None \<Rightarrow> [] | Some t \<Rightarrow> t)
       (if truthy columns then zip (create_column_layout sections) sections
        else if truthy rows then zip (create_row_layout sections) sections
        else [])"

definition add_slide ::
  "world \<Rightarrow> string \<Rightarrow> string option \<Rightarrow> int option \<Rightarrow> int option
     \<Rightarrow> section_dict list \<Rightarrow> (error + unit) \<times> world" where
  "add_slide w name slide_title columns rows sections =
     (case add_slide_checks w name slide_title columns rows sections of
        Inl e \<Rightarrow> (Inl e, w)
      | Inr _ \<Rightarrow>
          let file_path = output_path (name @ ''.pptx'');
              prs = (case files w file_path of None \<Rightarrow> [] | Some d \<Rightarrow> d);
              slide = build_slide slide_title columns rows sections
          in (Inr (),
              \<lparr>files = (files w)(file_path \<mapsto> prs @ [slide]),
               events = events w @ [Opened file_path, Saved file_path]\<rparr>))"

text \<open>One element of the \<open>slides\<close> argument of \<open>create_ppt\<close>, read with \<open>.get\<close>.\<close>

record slide_data =
  sd_slide_title :: "string option"
  sd_layout :: "string option"
  sd_columns :: "int option"
  sd_rows :: "int option"
  sd_sections :: "section_dict list"

text \<open>The body of the loop of \<open>create_ppt\<close> (lines 59 to 73).\<close>

definition add_slide_from_data ::
  "world \<Rightarrow> string \<Rightarrow> slide_data \<Rightarrow> (error + unit) \<times> world" where
  "add_slide_from_data w name sd =
     (let slide_title = sd_slide_title sd;
          layout = sd_layout sd;
          columns = sd_columns sd;
          rows = sd_rows sd;
          sections = sd_sections sd
      in
      if layout = Some (LayoutType_value COLUMN) \<and> truthy columns
        then add_slide w name slide_title columns None sections
      else if layout = Some (LayoutType_value ROW) \<and> truthy rows
        then add_slide w name slide_title None rows sections
      else if sections \<noteq> []
        then add_slide w name slide_title (Some (int (length sections))) None sections
      else add_slide w name slide_title None None [])"

fun add_slides :: "world \<Rightarrow> string \<Rightarrow> slide_data list \<Rightarrow> (error + unit) \<times> world" where
  "add_slides w name [] = (Inr (), w)"
| "add_slides w name (sd # rest) =
     (case add_slide_from_data w name sd of
        (Inl e, w') \<Rightarrow> (Inl e, w')
      | (Inr _, w') \<Rightarrow> add_slides w' name rest)"

definition title_slide :: "string \<Rightarrow> slide" where
  "title_slide title = TitleSlide title ''Created with PowerPoint Manipulation App''"

definition create_ppt ::
  "world \<Rightarrow> string \<Rightarrow> string \<Rightarrow> slide_data list option \<Rightarrow> (error + string) \<times> world" where
  "create_ppt w name title slides =
     (if name = [] then (Inl NameRequired, w)
      else
        let prs = [title_slide title];
            file_path = output_path (name @ ''.pptx'');
            w1 = \<lparr>files = (files w)(file_path \<mapsto> prs),
                  events = events w @ [Saved file_path]\<rparr>
        in
        (case slides of
           None \<Rightarrow> (Inr file_path, w1)
         | Some [] \<Rightarrow> (Inr file_path, w1)
         | Some sl \<Rightarrow>
             (case add_slides w1 name sl of
                (Inl e, w2) \<Rightarrow> (Inl e, w2)
              | (Inr _, w2) \<Rightarrow> (Inr file_path, w2))))"

section \<open>ppt_creation_agent.py\<close>

text \<open>
  The result dictionaries: \<open>ToolMessage slide_title ppt_name\<close> is the success
  message (which quotes both strings), \<open>ToolError e\<close> is \<open>{"error": str(e)}\<close>.
\<close>

datatype tool_result = ToolMessage string string | ToolError error

text \<open>
  \<open>add_slide\<close> of \<open>ppt_creation_agent.py\<close>, the tool the conversation loop calls;
  the function of \<open>ppt_helpers.py\<close> is imported there as \<open>add_slide_to_ppt\<close>.
  The arguments \<open>columns\<close> and \<open>rows\<close> are accepted and never read.
\<close>

definition agent_add_slide ::
  "world \<Rightarrow> string \<Rightarrow> string option \<Rightarrow> int option \<Rightarrow> int option \<Rightarrow> string option
     \<Rightarrow> section_dict list option \<Rightarrow> tool_result \<times> world" where
  "agent_add_slide w ppt_name slide_title columns rows layout sections0 =
     (let sections = (case sections0 of None \<Rightarrow> [] | Some s \<Rightarrow> s);
          r = (if layout = Some ''COLUMN''
                 then add_slide w ppt_name slide_title
                        (Some (int (length sections))) None sections
               else if layout = Some ''ROW''
                 then add_slide w ppt_name slide_title
                        None (Some (int (length sections))) sections
               else add_slide w ppt_name slide_title None None [])
      in case r of
           (Inl e, w') \<Rightarrow> (ToolError e, w')
         | (Inr _, w') \<Rightarrow>
             (ToolMessage (case slide_title of None \<Rightarrow> [] | Some t \<Rightarrow> t) ppt_name, w'))"

section \<open>Concrete inputs\<close>

text \<open>
  Sections and documents used where a statement is evaluated on a concrete input:
  a dict without the key \<open>size\<close>, a dict with it, and an output directory that
  holds one freshly created presentation \<open>deck\<close>.
\<close>

definition unsized :: "string \<Rightarrow> section_dict" where
  "unsized h = \<lparr>dict_header = h, dict_content = [], dict_size = None\<rparr>"

definition sized :: "string \<Rightarrow> rat option \<Rightarrow> section_dict" where
  "sized h v = \<lparr>dict_header = h, dict_content = [], dict_size = Some v\<rparr>"

definition empty_world :: world where
  "empty_world = \<lparr>files = Map.empty, events = []\<rparr>"

definition deck_world :: world where
  "deck_world = \<lparr>files = [''output/deck.pptx'' \<mapsto> [title_slide ''Deck'']],
                  events = [Saved ''output/deck.pptx'']\<rparr>"

definition intro_data :: slide_data where
  "intro_data = \<lparr>sd_slide_title = Some ''Intro'', sd_layout = None, sd_columns = None,
                  sd_rows = None, sd_sections = [unsized ''A'']\<rparr>"

definition untitled_data :: slide_data where
  "untitled_data = \<lparr>sd_slide_title = None, sd_layout = None, sd_columns = None,
                     sd_rows = None, sd_sections = []\<rparr>"

definition partial_world :: world where
  "partial_world =
      \<lparr>files = [''output/deck.pptx'' \<mapsto>
          [title_slide ''Deck'',
           ContentSlide ''Intro''
             [(\<lparr>start_x = 1/2, start_y = 3/2, box_width = 12, box_height = 5\<rparr>,
               unsized ''A'')]]],
       events = [Saved ''output/deck.pptx'', Opened ''output/deck.pptx'',
                 Saved ''output/deck.pptx'']\<rparr>"

definition typed_unsized :: "string \<Rightarrow> Section" where
  "typed_unsized h = \<lparr>header = h, content = [], size_val = None\<rparr>"

definition typed_sized :: "string \<Rightarrow> rat \<Rightarrow> Section" where
  "typed_sized h v = \<lparr>header = h, content = [], size_val = Some v\<rparr>"

text \<open>A slide of 28 rows: one of 73 percent and 27 of 1 percent each.\<close>

definition tall_rows :: "Section list" where
  "tall_rows = typed_sized ''A'' 73 # replicate 27 (typed_sized ''B'' 1)"

section \<open>Side conditions of the statements\<close>



section \<open>Basic facts\<close>

lemma py_int_numeral [simp]: "py_int (numeral a) = numeral a"
  by (simp add: py_int_def)

lemma py_int_zero [simp]: "py_int 0 = 0"
  by (simp add: py_int_def)

lemma py_int_one [simp]: "py_int 1 = 1"
  by (simp add: py_int_def)

lemma py_int_fraction [simp]:
  "py_int (numeral a / numeral b) = numeral a div numeral b"
proof -
  have "\<lfloor>(of_int (numeral a) :: rat) / of_int (numeral b)\<rfloor> = numeral a div numeral b"
    by (rule floor_divide_of_int_eq)
  then show ?thesis by (simp add: py_int_def)
qed

lemma py_int_neg_fraction [simp]:
  "py_int (- (numeral a / numeral b)) = - (numeral a div numeral b)"
proof -
  have "\<lfloor>(of_int (numeral a) :: rat) / of_int (numeral b)\<rfloor> = numeral a div numeral b"
    by (rule floor_divide_of_int_eq)
  then show ?thesis by (simp add: py_int_def ceiling_def)
qed

lemma deck_exists:
  "files deck_world (output_path ''deck.pptx'') = Some [title_slide ''Deck'']"
  by (simp add: deck_world_def output_path_def)

lemma check_sizes_errors:
  "check_sizes s = Inl e \<Longrightarrow> e = MixedSizes \<or> e = BadTotalSize"
  by (simp add: check_sizes_def Let_def split: if_splits)

lemma add_slide_checks_errors:
  "add_slide_checks w name slide_title columns rows sections = Inl e \<Longrightarrow>
     e \<in> {PptNameRequired, SlideTitleRequired, FileNotFound (name @ ''.pptx''),
          BothRowsAndColumns, ColumnsMismatch (the columns), RowsMismatch (the rows),
          MixedSizes, BadTotalSize}"
  using check_sizes_errors [of sections e]
  by (simp add: add_slide_checks_def Let_def split: if_splits)

lemma mixed_keys_rejected:
  "add_slide deck_world ''deck'' (Some ''Intro'') (Some 2) None
     [unsized ''A'', sized ''B'' (Some 100)] = (Inl MixedSizes, deck_world)"
  by (simp add: add_slide_def add_slide_checks_def check_sizes_def Let_def falsy_str_def
        truthy_def has_size_key_def unsized_def sized_def deck_exists)

section \<open>Failed validation leaves the document untouched\<close>

text \<open>
  Claim C9. Whenever \<open>add_slide\<close> of \<open>ppt_helpers.py\<close> ends in an error, the error
  is one of its validation errors (missing name, missing title, missing file, rows
  together with columns, section count different from the dimension, mixed sizing,
  size sum out of band), it was raised by the checks that precede
  \<open>Presentation(file_path)\<close>, and the world is the one the call started from: no
  file has changed and no document was opened or saved.
\<close>

theorem add_slide_atomic:
  assumes "add_slide w name slide_title columns rows sections = (Inl e, w')"
  shows "w' = w \<and>
         add_slide_checks w name slide_title columns rows sections = Inl e \<and>
         e \<in> {PptNameRequired, SlideTitleRequired, FileNotFound (name @ ''.pptx''),
              BothRowsAndColumns, ColumnsMismatch (the columns), RowsMismatch (the rows),
              MixedSizes, BadTotalSize}"
proof -
  from assms have c: "add_slide_checks w name slide_title columns rows sections = Inl e"
    and u: "w' = w"
    by (simp_all add: add_slide_def Let_def split: sum.splits)
  from add_slide_checks_errors [OF c] c u show ?thesis by simp
qed

theorem add_slide_atomic_witness:
  "add_slide deck_world ''deck'' (Some ''Intro'') (Some 2) None
     [unsized ''A'', sized ''B'' (Some 100)] = (Inl MixedSizes, deck_world) \<and>
   add_slide_checks deck_world ''deck'' (Some ''Intro'') (Some 2) None
     [unsized ''A'', sized ''B'' (Some 100)] = Inl MixedSizes"
  using add_slide_atomic [OF mixed_keys_rejected] mixed_keys_rejected by simp

section \<open>Creation saves before it adds slides\<close>

lemma add_slide_error_unchanged:
  "add_slide w name slide_title columns rows sections = (Inl e, w') \<Longrightarrow> w' = w"
  by (simp add: add_slide_def Let_def split: sum.splits)

lemma add_slide_success:
  assumes "add_slide w name slide_title columns rows sections = (Inr u, w')"
  shows "\<exists>d. files w (output_path (name @ ''.pptx'')) = Some d \<and>
       files w' = (files w)(output_path (name @ ''.pptx'') \<mapsto>
                 d @ [build_slide slide_title columns rows sections]) \<and>
       events w' = events w @ [Opened (output_path (name @ ''.pptx'')),
                                  Saved (output_path (name @ ''.pptx''))]"
proof -
  from assms have c: "add_slide_checks w name slide_title columns rows sections = Inr ()"
    by (simp add: add_slide_def Let_def split: sum.splits)
  then have "files w (output_path (name @ ''.pptx'')) \<noteq> None"
    by (simp add: add_slide_checks_def Let_def split: if_splits)
  then obtain d where d: "files w (output_path (name @ ''.pptx'')) = Some d" by blast
  from assms c d show ?thesis
    by (auto simp: add_slide_def Let_def)
qed

lemma add_slide_from_data_is_add_slide:
  "\<exists>c r s. add_slide_from_data w name sd = add_slide w name (sd_slide_title sd) c r s"
  unfolding add_slide_from_data_def Let_def by (simp split: if_splits) blast

lemma add_slide_from_data_error:
  assumes "add_slide_from_data w name sd = (Inl e, w')" shows "w' = w"
proof -
  obtain c r s where "add_slide_from_data w name sd = add_slide w name (sd_slide_title sd) c r s"
    using add_slide_from_data_is_add_slide by blast
  with assms show ?thesis using add_slide_error_unchanged by metis
qed

lemma add_slide_from_data_success:
  assumes "add_slide_from_data w name sd = (Inr u, w')"
  shows "\<exists>d s. files w (output_path (name @ ''.pptx'')) = Some d \<and>
       files w' = (files w)(output_path (name @ ''.pptx'') \<mapsto> d @ [s]) \<and>
       events w' = events w @ [Opened (output_path (name @ ''.pptx'')),
                                  Saved (output_path (name @ ''.pptx''))]"
proof -
  obtain c r s where "add_slide_from_data w name sd = add_slide w name (sd_slide_title sd) c r s"
    using add_slide_from_data_is_add_slide by blast
  with assms have "add_slide w name (sd_slide_title sd) c r s = (Inr u, w')" by simp
  from add_slide_success [OF this] show ?thesis by blast
qed

lemma add_slides_error:
  "add_slides w name sl = (Inl e, w') \<Longrightarrow>
     \<exists>k<length sl. add_slides w name (take k sl) = (Inr (), w') \<and>
        fst (add_slide_from_data w' name (sl ! k)) = Inl e"
proof (induction sl arbitrary: w)
  case Nil
  then show ?case by simp
next
  case (Cons sd rest)
  obtain r w1 where step: "add_slide_from_data w name sd = (r, w1)" by (cases "add_slide_from_data w name sd")
  show ?case
  proof (cases r)
    case (Inl e1)
    with Cons.prems step have "e1 = e" "w' = w1" by simp_all
    moreover from step Inl have "w1 = w" using add_slide_from_data_error by blast
    ultimately have "add_slides w name (take 0 (sd # rest)) = (Inr (), w') \<and>
        fst (add_slide_from_data w' name ((sd # rest) ! 0)) = Inl e"
      using step Inl by simp
    then show ?thesis by blast
  next
    case (Inr u)
    with Cons.prems step have "add_slides w1 name rest = (Inl e, w')" by simp
    from Cons.IH [OF this] obtain k where k: "k < length rest"
      "add_slides w1 name (take k rest) = (Inr (), w')"
      "fst (add_slide_from_data w' name (rest ! k)) = Inl e" by blast
    then have "Suc k < length (sd # rest) \<and>
        add_slides w name (take (Suc k) (sd # rest)) = (Inr (), w') \<and>
        fst (add_slide_from_data w' name ((sd # rest) ! Suc k)) = Inl e"
      using step Inr by simp
    then show ?thesis by blast
  qed
qed

lemma add_slides_success:
  "add_slides w name sl = (Inr u, w') \<Longrightarrow>
   files w (output_path (name @ ''.pptx'')) = Some d \<Longrightarrow>
     \<exists>ss. length ss = length sl \<and>
       files w' (output_path (name @ ''.pptx'')) = Some (d @ ss) \<and>
       events w' = events w @ concat (replicate (length sl)
          [Opened (output_path (name @ ''.pptx'')), Saved (output_path (name @ ''.pptx''))])"
proof (induction sl arbitrary: w d)
  case Nil
  then show ?case by simp
next
  case (Cons sd rest)
  obtain r w1 where step: "add_slide_from_data w name sd = (r, w1)" by (cases "add_slide_from_data w name sd")
  with Cons.prems(1) obtain u1 where r: "r = Inr u1" by (cases r) simp_all
  with Cons.prems(1) step have rest: "add_slides w1 name rest = (Inr u, w')" by simp
  from add_slide_from_data_success [OF step [unfolded r]] Cons.prems(2)
  obtain s where s: "files w1 (output_path (name @ ''.pptx'')) = Some (d @ [s])"
     "events w1 = events w @ [Opened (output_path (name @ ''.pptx'')),
                                  Saved (output_path (name @ ''.pptx''))]"
    by auto
  from Cons.IH [OF rest s(1)] obtain ss where ss: "length ss = length rest"
    "files w' (output_path (name @ ''.pptx'')) = Some ((d @ [s]) @ ss)"
    "events w' = events w1 @ concat (replicate (length rest)
          [Opened (output_path (name @ ''.pptx'')), Saved (output_path (name @ ''.pptx''))])"
    by blast
  then have "length (s # ss) = length (sd # rest) \<and>
       files w' (output_path (name @ ''.pptx'')) = Some (d @ (s # ss)) \<and>
       events w' = events w @ concat (replicate (length (sd # rest))
          [Opened (output_path (name @ ''.pptx'')), Saved (output_path (name @ ''.pptx''))])"
    using s(2) by simp
  then show ?case by blast
qed

lemma partial_create:
  "create_ppt empty_world ''deck'' ''Deck'' (Some [intro_data, untitled_data]) =
     (Inl SlideTitleRequired, partial_world)"
  by (simp add: create_ppt_def add_slide_from_data_def add_slide_def add_slide_checks_def
        check_sizes_def Let_def falsy_str_def truthy_def has_size_key_def unsized_def
        empty_world_def intro_data_def untitled_data_def output_path_def build_slide_def
        create_column_layout_def column_width_def previous_sections_size_def size_factor_def
        get_size_def enumerate_eq_zip partial_world_def)

text \<open>
  Claim C10. \<open>create_ppt\<close> saves the document with its title slide before the loop
  over the caller's slides. If the operation ends in an error (the name being given),
  the error came from adding some slide \<open>k\<close> of the list; the world left behind is
  exactly the one a successful creation with the first \<open>k\<close> slides produces: the file
  holds the title slide followed by \<open>k\<close> slides, and the log shows the initial save
  followed by one open and save per slide added.
\<close>

theorem create_ppt_partial_document:
  assumes "create_ppt w name title slides = (Inl e, w')" and "name \<noteq> []"
  shows "\<exists>sl k ss. slides = Some sl \<and> k < length sl \<and>
           fst (add_slide_from_data w' name (sl ! k)) = Inl e \<and>
           create_ppt w name title (Some (take k sl)) =
             (Inr (output_path (name @ ''.pptx'')), w') \<and>
           files w' (output_path (name @ ''.pptx'')) = Some (title_slide title # ss) \<and>
           length ss = k \<and>
           events w' = events w @ Saved (output_path (name @ ''.pptx'')) #
             concat (replicate k [Opened (output_path (name @ ''.pptx'')),
                                  Saved (output_path (name @ ''.pptx''))])"
proof -
  define p where "p = output_path (name @ ''.pptx'')"
  define w1 where "w1 = \<lparr>files = (files w)(p \<mapsto> [title_slide title]),
                          events = events w @ [Saved p]\<rparr>"
  from assms obtain sl where sl: "slides = Some sl" "sl \<noteq> []"
    by (auto simp: create_ppt_def Let_def split: option.splits list.splits)
  with assms have loop: "add_slides w1 name sl = (Inl e, w')"
    by (auto simp: create_ppt_def Let_def w1_def p_def split: list.splits sum.splits prod.splits)
  from add_slides_error [OF loop] obtain k where k: "k < length sl"
    "add_slides w1 name (take k sl) = (Inr (), w')"
    "fst (add_slide_from_data w' name (sl ! k)) = Inl e" by blast
  have f1: "files w1 (output_path (name @ ''.pptx'')) = Some [title_slide title]"
    by (simp add: w1_def p_def)
  from add_slides_success [OF k(2) f1] obtain ss where ss: "length ss = length (take k sl)"
    "files w' p = Some ([title_slide title] @ ss)"
    "events w' = events w1 @ concat (replicate (length (take k sl)) [Opened p, Saved p])"
    unfolding p_def by blast
  have len: "length ss = k" using ss(1) k(1) by simp
  have cr: "create_ppt w name title (Some (take k sl)) = (Inr p, w')"
  proof (cases "take k sl")
    case Nil
    with k(2) have "w' = w1" by simp
    with assms(2) show ?thesis unfolding Nil by (simp add: create_ppt_def Let_def w1_def p_def)
  next
    case (Cons a as)
    with k(2) assms(2) show ?thesis
      by (simp add: create_ppt_def Let_def w1_def p_def)
  qed
  have "slides = Some sl \<and> k < length sl \<and>
           fst (add_slide_from_data w' name (sl ! k)) = Inl e \<and>
           create_ppt w name title (Some (take k sl)) = (Inr p, w') \<and>
           files w' p = Some (title_slide title # ss) \<and>
           length ss = k \<and>
           events w' = events w @ Saved p # concat (replicate k [Opened p, Saved p])"
    using sl(1) k(1,3) cr ss(2,3) len by (simp add: w1_def)
  then show ?thesis unfolding p_def by blast
qed

theorem create_ppt_partial_document_witness:
  "create_ppt empty_world ''deck'' ''Deck'' (Some [intro_data, untitled_data]) =
     (Inl SlideTitleRequired, partial_world) \<and>
   (\<exists>ss. files partial_world (output_path ''deck.pptx'') = Some (title_slide ''Deck'' # ss) \<and>
      length ss < 2)"
proof -
  have ne: "''deck'' \<noteq> []" by simp
  from create_ppt_partial_document [OF partial_create ne]
  obtain sl k ss where "Some [intro_data, untitled_data] = Some sl" "k < length sl"
    "files partial_world (output_path (''deck'' @ ''.pptx'')) = Some (title_slide ''Deck'' # ss)"
    "length ss = k"
    by blast
  then have "files partial_world (output_path ''deck.pptx'') = Some (title_slide ''Deck'' # ss) \<and>
      length ss < 2" by auto
  with partial_create show ?thesis by blast
qed

section \<open>Evaluation on concrete inputs\<close>

lemmas eval_checks = add_slide_def add_slide_checks_def check_sizes_def Let_def falsy_str_def
        truthy_def has_size_key_def get_size_def unsized_def sized_def output_path_def
        List.map_filter_simps deck_world_def

lemmas eval_layout = create_column_layout_def create_row_layout_def column_width_def
        previous_sections_size_def size_factor_def get_size_def enumerate_eq_zip Let_def
        unsized_def sized_def build_slide_def

lemmas eval_typed = validate_sections_def typed_sized_def typed_unsized_def Let_def
        truthy_def List.map_filter_simps

section \<open>The tool drops sections when no layout is named\<close>

text \<open>
  Claim C8. The claim says that the tool \<open>add_slide\<close>, called without a layout and
  with a non-empty section list, lays the sections out as columns. Evaluated on the
  presentation \<open>deck\<close> with one section and no layout, the tool reports success and
  appends a slide with no region at all: its last branch calls \<open>add_slide_to_ppt\<close>
  without the sections. The loop body of \<open>create_ppt\<close>, given the same slide, appends
  a slide with one column.
\<close>

theorem agent_drops_sections:
  "fst (agent_add_slide deck_world ''deck'' (Some ''Intro'') None None None
          (Some [unsized ''Overview''])) = ToolMessage ''Intro'' ''deck'' \<and>
   files (snd (agent_add_slide deck_world ''deck'' (Some ''Intro'') None None None
          (Some [unsized ''Overview'']))) ''output/deck.pptx'' =
     Some [title_slide ''Deck'', ContentSlide ''Intro'' []] \<and>
   files (snd (add_slide_from_data deck_world ''deck''
          \<lparr>sd_slide_title = Some ''Intro'', sd_layout = None, sd_columns = None,
           sd_rows = None, sd_sections = [unsized ''Overview'']\<rparr>)) ''output/deck.pptx'' =
     Some [title_slide ''Deck'',
           ContentSlide ''Intro''
             [(\<lparr>start_x = 1/2, start_y = 3/2, box_width = 12, box_height = 5\<rparr>,
               unsized ''Overview'')]]"
  by (simp add: agent_add_slide_def add_slide_from_data_def eval_checks eval_layout deck_world_def)

section \<open>Section count against the dimension\<close>

text \<open>
  Claim C5. The claim says that zero sections against a positive count are rejected on
  both validation paths. Evaluated with three columns and no section, the constructor
  of SlideModel accepts (its validator returns at \<open>if not v\<close>, before the count is
  compared), while the checks of \<open>add_slide\<close> reject with the mismatch error.
\<close>

theorem empty_sections_against_count:
  "SlideModel_init ''T'' None (Some 3) None (Some []) None =
     Inr \<lparr>sm_slide_title = ''T'', sm_layout = None, sm_columns = Some 3, sm_rows = None,
          sm_sections = Some [], sm_ppt_name = None\<rparr> \<and>
   add_slide_checks deck_world ''deck'' (Some ''T'') (Some 3) None [] =
     Inl (ColumnsMismatch 3)"
  by (simp add: SlideModel_init_def validate_dimension_def validate_sections_def eval_checks deck_world_def)

section \<open>Mixed sizing\<close>

text \<open>
  Claim C3. The claim says that both validation paths reject a slide that mixes sized
  and unsized sections. Evaluated on two sections, the first with size None and the
  second with size 100 (the dicts that \<open>model_dump\<close> yields for such sections), the
  validator of SlideModel rejects with the mixing error, while the checks of
  \<open>add_slide\<close> accept: they test the presence of the key, then sum the values that are
  not None. The layout then treats the first section as unsized (factor 1/2) and the
  second as sized (factor 1).
\<close>

theorem none_valued_size_passes_mixing_check:
  "map model_dump [typed_unsized ''A'', typed_sized ''B'' 100] =
     [sized ''A'' None, sized ''B'' (Some 100)] \<and>
   validate_sections (Some [typed_unsized ''A'', typed_sized ''B'' 100]) (Some 2) None =
     Inl MixedSizes \<and>
   add_slide_checks deck_world ''deck'' (Some ''T'') (Some 2) None
     [sized ''A'' None, sized ''B'' (Some 100)] = Inr () \<and>
   map (size_factor 2) [sized ''A'' None, sized ''B'' (Some 100)] = [1/2, 1]"
  by (simp add: model_dump_def typed_unsized_def typed_sized_def validate_sections_def
       eval_checks deck_world_def size_factor_def)

section \<open>Three equal columns\<close>

text \<open>
  Claim C2. The claim says that three unsized sections in COLUMN mode are rendered
  about 3.977 inches wide at x-origins about 0.5, 4.677 and 8.854. Evaluated, the
  x-origins are 1/2, 1403/300 and 664/75 and the computed width is 1193/300 for each,
  as claimed; the width passed to \<open>create_section_box\<close> is \<open>int(width)\<close>, which is 3.
\<close>

theorem three_columns_rendered:
  "map box_width (create_column_layout [unsized ''A'', unsized ''B'', unsized ''C'']) = [3, 3, 3] \<and>
   map (column_width [unsized ''A'', unsized ''B'', unsized ''C''])
       [unsized ''A'', unsized ''B'', unsized ''C''] = [1193/300, 1193/300, 1193/300] \<and>
   map start_x (create_column_layout [unsized ''A'', unsized ''B'', unsized ''C'']) =
     [1/2, 1403/300, 664/75]"
  by (simp add: eval_layout)

section \<open>Rows against transposed columns\<close>

lemma create_column_layout_on_template:
  "create_column_layout sections = column_layout_on template_canvas sections"
  by (simp add: create_column_layout_def column_layout_on_def template_canvas_def column_width_def Let_def)

lemma create_row_layout_on_template:
  "create_row_layout sections = row_layout_on template_canvas sections"
  by (simp add: create_row_layout_def row_layout_on_def template_canvas_def Let_def)

lemma origins_transpose:
  "map start_y (row_layout_on cv sections) =
   map start_x (column_layout_on (transpose_canvas cv) sections)"
  by (simp add: row_layout_on_def column_layout_on_def transpose_canvas_def Let_def case_prod_beta)

text \<open>
  Claim C6. The claim says that the ROW layout is the COLUMN layout with the roles of
  width and height, and of x and y, swapped. The origins do agree
  (\<open>origins_transpose\<close>). Evaluated on two unsized sections over the template canvas,
  the regions do not: the row algorithm draws boxes of 12.33 by 2.4 inches, the column
  algorithm on the transposed canvas, transposed back, boxes of 12 by 2 inches, since
  it passes \<open>int(width)\<close> and \<open>int(section_height)\<close>; the areas are 29.592 and 24.
\<close>

theorem row_not_transpose_of_column:
  "row_layout_on template_canvas [unsized ''A'', unsized ''B''] =
     [\<lparr>start_x = 1/2, start_y = 3/2, box_width = 1233/100, box_height = 12/5\<rparr>,
      \<lparr>start_x = 1/2, start_y = 41/10, box_width = 1233/100, box_height = 12/5\<rparr>] \<and>
   map transpose_region
     (column_layout_on (transpose_canvas template_canvas) [unsized ''A'', unsized ''B'']) =
     [\<lparr>start_x = 1/2, start_y = 3/2, box_width = 12, box_height = 2\<rparr>,
      \<lparr>start_x = 1/2, start_y = 41/10, box_width = 12, box_height = 2\<rparr>] \<and>
   map area (row_layout_on template_canvas [unsized ''A'', unsized ''B'']) = [7398/250, 7398/250] \<and>
   map area (column_layout_on (transpose_canvas template_canvas)
               [unsized ''A'', unsized ''B'']) = [24, 24]"
  by (simp add: row_layout_on_def column_layout_on_def transpose_canvas_def template_canvas_def
        transpose_region_def area_def previous_sections_size_def size_factor_def get_size_def
        enumerate_eq_zip Let_def unsized_def)

section \<open>The band of the size sum\<close>











text \<open>The sums 97, 102 and 103 on both paths.\<close>

lemma band_boundaries:
  "validate_sections (Some [typed_sized ''A'' 48, typed_sized ''B'' 49]) (Some 2) None =
     Inl BadTotalSize \<and>
   validate_sections (Some [typed_sized ''A'' 51, typed_sized ''B'' 51]) (Some 2) None =
     Inr (Some [typed_sized ''A'' 51, typed_sized ''B'' 51]) \<and>
   validate_sections (Some [typed_sized ''A'' 51, typed_sized ''B'' 52]) (Some 2) None =
     Inl BadTotalSize \<and>
   add_slide_checks deck_world ''deck'' (Some ''T'') (Some 2) None
     [sized ''A'' (Some 48), sized ''B'' (Some 49)] = Inl BadTotalSize \<and>
   add_slide_checks deck_world ''deck'' (Some ''T'') (Some 2) None
     [sized ''A'' (Some 51), sized ''B'' (Some 51)] = Inr () \<and>
   add_slide_checks deck_world ''deck'' (Some ''T'') (Some 2) None
     [sized ''A'' (Some 51), sized ''B'' (Some 52)] = Inl BadTotalSize"
  by (simp add: eval_checks eval_typed)

section \<open>A slide with one section\<close>

text \<open>
  Claim C1, as stated, fails: a lone section of size 98 passes the validation of both
  paths, and the ROW layout gives it a box 4.9 inches high, not the full 5 inches; the
  width computed in COLUMN mode is 12.0834, not 12.33.
\<close>

theorem lone_sized_section_counterexample:
  "Section_init ''A'' [] (Some 98) = Inr (typed_sized ''A'' 98) \<and>
   validate_sections (Some [typed_sized ''A'' 98]) None (Some 1) =
     Inr (Some [typed_sized ''A'' 98]) \<and>
   model_dump (typed_sized ''A'' 98) = sized ''A'' (Some 98) \<and>
   add_slide_checks deck_world ''deck'' (Some ''T'') None (Some 1) [sized ''A'' (Some 98)] =
     Inr () \<and>
   create_row_layout [sized ''A'' (Some 98)] =
     [\<lparr>start_x = 1/2, start_y = 3/2, box_width = 1233/100, box_height = 49/10\<rparr>] \<and>
   create_row_layout [sized ''A'' (Some 98)] \<noteq>
     [\<lparr>start_x = 1/2, start_y = 3/2, box_width = 1233/100, box_height = 5\<rparr>] \<and>
   column_width [sized ''A'' (Some 98)] (sized ''A'' (Some 98)) = 60417/5000 \<and>
   (60417/5000 :: rat) < 1233/100"
  by (simp add: Section_init_def validate_size_def model_dump_def eval_checks eval_typed
        create_row_layout_def column_width_def previous_sections_size_def size_factor_def
        enumerate_eq_zip)

lemma check_sizes_single:
  assumes "check_sizes [section] = Inr ()"
  shows "get_size section = None \<or> (\<exists>v. get_size section = Some v \<and> 98 \<le> v \<and> v \<le> 102)"
  using assms
  by (cases "dict_size section")
     (auto simp: check_sizes_def Let_def has_size_key_def get_size_def List.map_filter_simps
           split: if_splits option.splits)

text \<open>
  Claim C1, amended. For a lone section that passes the size checks, both layouts
  produce one region at the origin (0.5, 1.5). Its extent along the tiling axis, as
  computed, is the usable extent times the section's factor: the height of the box
  in ROW mode (of width 12.33), the local \<open>width\<close> in COLUMN mode. The factor is 1
  when the section has no size and size/100 otherwise, hence between 0.98 and 1.02.
\<close>

theorem single_section_layout:
  assumes "check_sizes [section] = Inr ()"
  shows "create_row_layout [section] =
           [\<lparr>start_x = 0.5, start_y = 1.5, box_width = 12.33,
             box_height = 5.0 * size_factor 1 section\<rparr>] \<and>
         map start_x (create_column_layout [section]) = [0.5] \<and>
         map start_y (create_column_layout [section]) = [1.5] \<and>
         column_width [section] section = 12.33 * size_factor 1 section \<and>
         size_factor 1 section = (case get_size section of None \<Rightarrow> 1 | Some v \<Rightarrow> v / 100) \<and>
         0.98 \<le> size_factor 1 section \<and> size_factor 1 section \<le> 1.02"
proof -
  have row: "create_row_layout [section] =
           [\<lparr>start_x = 0.5, start_y = 1.5, box_width = 12.33,
             box_height = 5.0 * size_factor 1 section\<rparr>]"
    by (simp add: create_row_layout_def previous_sections_size_def enumerate_eq_zip)
  have col: "map start_x (create_column_layout [section]) = [0.5]"
       "map start_y (create_column_layout [section]) = [1.5]"
    by (simp_all add: create_column_layout_def previous_sections_size_def enumerate_eq_zip)
  have w: "column_width [section] section = 12.33 * size_factor 1 section"
    by (simp add: column_width_def)
  from check_sizes_single [OF assms]
  have f: "size_factor 1 section = (case get_size section of None \<Rightarrow> 1 | Some v \<Rightarrow> v / 100) \<and>
         0.98 \<le> size_factor 1 section \<and> size_factor 1 section \<le> 1.02"
    by (auto simp: size_factor_def)
  from row col w f show ?thesis by simp
qed

theorem single_section_layout_witness:
  "create_row_layout [sized ''A'' (Some 98)] =
     [\<lparr>start_x = 1/2, start_y = 3/2, box_width = 1233/100, box_height = 49/10\<rparr>] \<and>
   column_width [sized ''A'' (Some 98)] (sized ''A'' (Some 98)) = 60417/5000"
proof -
  have h: "check_sizes [sized ''A'' (Some 98)] = Inr ()"
    by (simp add: eval_checks)
  have f: "size_factor 1 (sized ''A'' (Some 98)) = 49/50"
    by (simp add: size_factor_def get_size_def sized_def)
  from single_section_layout [OF h] show ?thesis unfolding f by simp
qed

section \<open>Order of the origins\<close>

lemma start_x_column_nth:
  assumes "i < length sections"
  shows "start_x (create_column_layout sections ! i) =
     0.5 + (12.33 - 0.2 * (of_nat (length sections) - 1)) * previous_sections_size sections i
       + 0.2 * of_nat i"
  using assms by (simp add: create_column_layout_def Let_def nth_enumerate_eq)

lemma start_y_row_nth:
  assumes "i < length sections"
  shows "start_y (create_row_layout sections ! i) =
     1.5 + (5.0 - 0.2 * (of_nat (length sections) - 1)) * previous_sections_size sections i
       + 0.2 * of_nat i"
  using assms by (simp add: create_row_layout_def Let_def nth_enumerate_eq)

lemma length_create_column_layout [simp]:
  "length (create_column_layout sections) = length sections"
  by (simp add: create_column_layout_def Let_def)

lemma length_create_row_layout [simp]:
  "length (create_row_layout sections) = length sections"
  by (simp add: create_row_layout_def Let_def)

lemma size_factor_nonneg:
  assumes "\<forall>v. get_size s = Some v \<longrightarrow> 0 \<le> v"
  shows "0 \<le> size_factor n s"
  using assms by (simp add: size_factor_def split: option.splits)

lemma previous_sections_size_mono:
  assumes "i \<le> j" and "\<forall>s\<in>set sections. 0 \<le> size_factor (length sections) s"
  shows "previous_sections_size sections i \<le> previous_sections_size sections j"
proof -
  obtain k where j: "j = i + k" using assms(1) by (auto simp: le_iff_add)
  have "\<forall>x\<in>set (map (size_factor (length sections)) (take k (drop i sections))). 0 \<le> x"
    using assms(2) by (auto dest!: in_set_takeD in_set_dropD)
  then have "0 \<le> sum_list (map (size_factor (length sections)) (take k (drop i sections)))"
    by (intro sum_list_nonneg) auto
  then show ?thesis
    by (simp add: previous_sections_size_def j take_add)
qed

lemma origins_increase:
  fixes total margin :: rat
  assumes "0 \<le> total" and "i < j"
    and "previous_sections_size sections i \<le> previous_sections_size sections j"
  shows "margin + total * previous_sections_size sections i + 0.2 * of_nat i
       < margin + total * previous_sections_size sections j + 0.2 * of_nat j"
proof -
  have "total * previous_sections_size sections i \<le> total * previous_sections_size sections j"
    using assms(1,3) by (rule mult_left_mono [rotated])
  moreover have "(0.2::rat) * of_nat i < 0.2 * of_nat j" using assms(2) by simp
  ultimately show ?thesis by linarith
qed

lemma tall_rows_typed_valid:
  "list_all (\<lambda>s. Section_init (header s) (content s) (size_val s) = Inr s) tall_rows"
  by code_simp

lemma tall_rows_slide_valid:
  "validate_sections (Some tall_rows) None (Some 28) = Inr (Some tall_rows)"
  by code_simp

lemma tall_rows_loose_valid:
  "check_sizes (map model_dump tall_rows) = Inr ()"
  by code_simp

lemma tall_rows_origins:
  "take 2 (map start_y (create_row_layout (map model_dump tall_rows))) = [3/2, 176/125]"
  by code_simp

lemma tall_rows_not_sorted:
  "\<not> sorted_wrt (<) (map start_y (create_row_layout (map model_dump tall_rows)))"
  by code_simp

text \<open>
  Claim C7, as stated, fails. The 28 rows of \<open>tall_rows\<close> are valid sections, pass
  the validator of SlideModel and the size checks of \<open>add_slide\<close>; the gaps alone
  (27 times 0.2 inches) exceed the 5 inches of the canvas, the usable height is
  negative, and the second row starts above the first: 1.408 after 1.5.
\<close>

theorem tall_rows_counterexample:
  "list_all (\<lambda>s. Section_init (header s) (content s) (size_val s) = Inr s) tall_rows \<and>
   validate_sections (Some tall_rows) None (Some 28) = Inr (Some tall_rows) \<and>
   check_sizes (map model_dump tall_rows) = Inr () \<and>
   take 2 (map start_y (create_row_layout (map model_dump tall_rows))) = [3/2, 176/125] \<and>
   \<not> sorted_wrt (<) (map start_y (create_row_layout (map model_dump tall_rows)))"
  by (intro conjI tall_rows_typed_valid tall_rows_slide_valid tall_rows_loose_valid
        tall_rows_origins tall_rows_not_sorted)

text \<open>
  Claim C7, amended. For every section list in which no declared size is negative
  (the Section model admits only sizes above 0), the x-origins of the COLUMN layout
  are strictly increasing in section order when there are at most 62 sections, and
  the y-origins of the ROW layout when there are at most 26: the counts up to which
  the usable extent left by the gaps is not negative.
\<close>

theorem origins_strictly_increasing:
  assumes "\<forall>s\<in>set sections. \<forall>v. get_size s = Some v \<longrightarrow> 0 \<le> v"
  shows "(length sections \<le> 62 \<longrightarrow>
            sorted_wrt (<) (map start_x (create_column_layout sections))) \<and>
         (length sections \<le> 26 \<longrightarrow>
            sorted_wrt (<) (map start_y (create_row_layout sections)))"
proof -
  have nn: "\<forall>s\<in>set sections. 0 \<le> size_factor (length sections) s"
    using assms size_factor_nonneg by blast
  have col: "sorted_wrt (<) (map start_x (create_column_layout sections))"
    if n: "length sections \<le> 62"
  proof -
    have "(of_nat (length sections) :: rat) \<le> of_nat 62" using n by (simp only: of_nat_le_iff)
    then have "(of_nat (length sections) :: rat) \<le> 62" by simp
    then have tot: "(0::rat) \<le> 12.33 - 0.2 * (of_nat (length sections) - 1)" by simp
    show ?thesis
      unfolding sorted_wrt_iff_nth_less
    proof (intro allI impI)
      fix i j assume ij: "i < j" and j: "j < length (map start_x (create_column_layout sections))"
      then have jl: "j < length sections" and il: "i < length sections" by simp_all
      have m: "previous_sections_size sections i \<le> previous_sections_size sections j"
        using previous_sections_size_mono [OF _ nn, of i j] ij by simp
      show "map start_x (create_column_layout sections) ! i
          < map start_x (create_column_layout sections) ! j"
        using origins_increase [OF tot ij m, of "0.5"] il jl
        by (simp add: start_x_column_nth)
    qed
  qed
  have row: "sorted_wrt (<) (map start_y (create_row_layout sections))"
    if n: "length sections \<le> 26"
  proof -
    have "(of_nat (length sections) :: rat) \<le> of_nat 26" using n by (simp only: of_nat_le_iff)
    then have "(of_nat (length sections) :: rat) \<le> 26" by simp
    then have tot: "(0::rat) \<le> 5.0 - 0.2 * (of_nat (length sections) - 1)" by simp
    show ?thesis
      unfolding sorted_wrt_iff_nth_less
    proof (intro allI impI)
      fix i j assume ij: "i < j" and j: "j < length (map start_y (create_row_layout sections))"
      then have jl: "j < length sections" and il: "i < length sections" by simp_all
      have m: "previous_sections_size sections i \<le> previous_sections_size sections j"
        using previous_sections_size_mono [OF _ nn, of i j] ij by simp
      show "map start_y (create_row_layout sections) ! i
          < map start_y (create_row_layout sections) ! j"
        using origins_increase [OF tot ij m, of "1.5"] il jl
        by (simp add: start_y_row_nth)
    qed
  qed
  from col row show ?thesis by blast
qed

theorem origins_strictly_increasing_witness:
  "sorted_wrt (<) (map start_x (create_column_layout
      [sized ''A'' (Some 50), sized ''B'' (Some 25), sized ''C'' (Some 25)])) \<and>
   sorted_wrt (<) (map start_y (create_row_layout
      [sized ''A'' (Some 50), sized ''B'' (Some 25), sized ''C'' (Some 25)]))"
proof -
  have h: "\<forall>s\<in>set [sized ''A'' (Some 50), sized ''B'' (Some 25), sized ''C'' (Some 25)].
             \<forall>v. get_size s = Some v \<longrightarrow> 0 \<le> v"
    by (simp add: sized_def get_size_def)
  from origins_strictly_increasing [OF h] show ?thesis by simp
qed

section \<open>Further facts about the validators and the layout\<close>

text \<open>
  What the two validation paths do guarantee about mixing and about the section count,
  the layout of an empty section list, the widths for the sizes 50, 25 and 25, and
  a pair of sizes that \<open>add_slide\<close> accepts although one of them is negative.
\<close>

lemma map_filter_none:
  "List.map_filter f xs = [] \<Longrightarrow> list_all (\<lambda>x. f x = None) xs"
  by (induction xs) (auto simp: List.map_filter_simps split: option.splits)

lemma map_filter_full:
  "length (List.map_filter f xs) = length xs \<Longrightarrow> list_all (\<lambda>x. f x \<noteq> None) xs"
proof (induction xs)
  case Nil
  then show ?case by simp
next
  case (Cons x xs)
  have le: "length (List.map_filter f xs) \<le> length xs"
    by (simp add: List.map_filter_def)
  from Cons.prems le have "f x \<noteq> None"
    by (auto simp: List.map_filter_simps split: option.splits)
  with Cons show ?case by (auto simp: List.map_filter_simps)
qed

lemma typed_path_rejects_mixed_sizes:
  assumes "validate_sections (Some secs) columns rows = Inr v"
  shows "list_all (\<lambda>s. size_val s \<noteq> None) secs \<or> list_all (\<lambda>s. size_val s = None) secs"
proof (cases secs)
  case Nil
  then show ?thesis by simp
next
  case (Cons a as)
  with assms have "List.map_filter size_val secs = [] \<or>
      length (List.map_filter size_val secs) = length secs"
    by (simp add: validate_sections_def Let_def split: if_splits)
  then show ?thesis using map_filter_none map_filter_full by blast
qed

lemma loose_path_rejects_mixed_keys:
  assumes "check_sizes dsecs = Inr ()"
  shows "list_all has_size_key dsecs \<or> list_all (\<lambda>d. \<not> has_size_key d) dsecs"
proof -
  from assms have "\<not> list_ex has_size_key dsecs \<or> list_all has_size_key dsecs"
    by (simp add: check_sizes_def Let_def split: if_splits)
  then show ?thesis by (auto simp: list_ex_iff list_all_iff)
qed

lemma typed_path_rejects_count_mismatch:
  assumes "secs \<noteq> []" and "truthy columns" and "columns \<noteq> Some (int (length secs))"
  shows "validate_sections (Some secs) columns rows \<in>
           {Inl BothRowsAndColumns, Inl (ColumnsMismatch (the columns))}"
  using assms by (cases secs) (auto simp: validate_sections_def Let_def)

lemma loose_path_rejects_count_mismatch:
  assumes "truthy columns" and "columns \<noteq> Some (int (length dsecs))"
  shows "\<exists>e. add_slide_checks w name slide_title columns rows dsecs = Inl e"
  using assms by (auto simp: add_slide_checks_def Let_def)

lemma no_sections_no_regions:
  "create_column_layout [] = [] \<and> create_row_layout [] = []"
  by (simp add: create_column_layout_def create_row_layout_def Let_def)

lemma half_quarter_quarter:
  "map (column_width [sized ''A'' (Some 50), sized ''B'' (Some 25), sized ''C'' (Some 25)])
       [sized ''A'' (Some 50), sized ''B'' (Some 25), sized ''C'' (Some 25)] =
     [1193/200, 1193/400, 1193/400] \<and>
   map box_width (create_column_layout
       [sized ''A'' (Some 50), sized ''B'' (Some 25), sized ''C'' (Some 25)]) = [5, 2, 2]"
  by (simp add: eval_layout)

lemma negative_size_reverses_order:
  "add_slide_checks deck_world ''deck'' (Some ''T'') (Some 2) None
     [sized ''A'' (Some (-50)), sized ''B'' (Some 150)] = Inr () \<and>
   map start_x (create_column_layout [sized ''A'' (Some (-50)), sized ''B'' (Some 150)]) =
     [1/2, -1073/200]"
  by (simp add: eval_checks eval_layout)

end
